theory Spec2Isabelle
  imports
    Complex_Main
    "HOL-Library.Char_ord"
    "HOL-Library.List_Lexorder"
    "HOL-Library.Product_Lexorder"
    "HOL-Library.AList"
    "HOL-Library.Multiset"
begin

section \<open>Values shared by both modules\<close>

text \<open>
  Both \<^verbatim>\<open>tidal_client.py\<close> and \<^verbatim>\<open>download_state.py\<close> read and write JSON documents.
  A parsed document is a value of \<open>json\<close>; a Python \<^verbatim>\<open>dict\<close> with string keys is an
  association list in insertion order (\<open>map_of\<close> looks a key up, \<open>AList.update\<close> is
  \<^verbatim>\<open>d[k] = v\<close>, \<open>AList.delete\<close> is \<^verbatim>\<open>del d[k]\<close>). The readings of \<^verbatim>\<open>time.time()\<close>
  are real numbers, passed in by the caller.
\<close>

datatype json =
    JNull
  | JBool bool
  | JInt int
  | JFloat real
  | JStr string
  | JList "json list"
  | JDict "(string \<times> json) list"

type_synonym doc = "(string \<times> json) list"

text \<open>
  What reading a JSON file gives: \<^verbatim>\<open>open\<close> raises, \<^verbatim>\<open>json.load\<close> raises, or a document
  comes back. A file that does not exist is \<open>None\<close> at the type \<open>'a file_read option\<close>.
\<close>

datatype 'a file_read = OpenFails | ParseFails | Parses 'a

section \<open>tidal\_client.py\<close>

subsection \<open>Data\<close>

text \<open>
  An endpoint is a dictionary with the keys \<^verbatim>\<open>name\<close>, \<^verbatim>\<open>url\<close> and \<^verbatim>\<open>priority\<close>. The code
  reads \<^verbatim>\<open>name\<close> and \<^verbatim>\<open>url\<close> by subscript and the priority with
  \<^verbatim>\<open>x.get('priority', 999)\<close>, so the priority alone may be missing.
\<close>

record Endpoint =
  name :: string
  url :: string
  priority :: "int option"

record SuccessRecord =
  sr_name :: string
  sr_url :: string
  sr_timestamp :: real

record CachedStatus =
  status :: doc
  timestamp :: real

record TidalAPIClient =
  endpoints :: "Endpoint list"
  success_history :: "string \<rightharpoonup> SuccessRecord"
  download_status_cache :: "int \<rightharpoonup> CachedStatus"

subsection \<open>\_load\_endpoints\<close>

definition default_endpoints :: "Endpoint list" where
  "default_endpoints =
    [\<lparr>name = ''kraken'', url = ''https://kraken.squid.wtf'', priority = Some 1\<rparr>,
     \<lparr>name = ''triton'', url = ''https://triton.squid.wtf'', priority = Some 1\<rparr>,
     \<lparr>name = ''zeus'', url = ''https://zeus.squid.wtf'', priority = Some 1\<rparr>,
     \<lparr>name = ''aether'', url = ''https://aether.squid.wtf'', priority = Some 1\<rparr>,
     \<lparr>name = ''phoenix'', url = ''https://phoenix.squid.wtf'', priority = Some 1\<rparr>,
     \<lparr>name = ''shiva'', url = ''https://shiva.squid.wtf'', priority = Some 1\<rparr>,
     \<lparr>name = ''chaos'', url = ''https://chaos.squid.wtf'', priority = Some 1\<rparr>,
     \<lparr>name = ''hund'', url = ''https://hund.qqdl.site'', priority = Some 2\<rparr>,
     \<lparr>name = ''katze'', url = ''https://katze.qqdl.site'', priority = Some 2\<rparr>,
     \<lparr>name = ''maus'', url = ''https://maus.qqdl.site'', priority = Some 2\<rparr>,
     \<lparr>name = ''vogel'', url = ''https://vogel.qqdl.site'', priority = Some 2\<rparr>,
     \<lparr>name = ''wolf'', url = ''https://wolf.qqdl.site'', priority = Some 2\<rparr>]"

text \<open>The dictionary literal an endpoint is written as in the source.\<close>

definition endpoint_dict :: "Endpoint \<Rightarrow> json" where
  "endpoint_dict e =
     JDict ([(''name'', JStr (name e)), (''url'', JStr (url e))] @
            (case priority e of None \<Rightarrow> [] | Some p \<Rightarrow> [(''priority'', JInt p)]))"

text \<open>
  Exceptions of the loader's \<^verbatim>\<open>try\<close> block. All of them are instances of
  \<^verbatim>\<open>Exception\<close>, which the handler catches.
\<close>

datatype load_error = OSError | JSONDecodeError | AttributeError

text \<open>
  The body of the \<^verbatim>\<open>try\<close>: \<^verbatim>\<open>data = json.load(f)\<close>, then
  \<^verbatim>\<open>data.get('endpoints', default_endpoints)\<close>. Only a dictionary has \<^verbatim>\<open>get\<close>; on any
  other document the call raises \<^verbatim>\<open>AttributeError\<close>.
\<close>

fun load_endpoints_try :: "json file_read \<Rightarrow> json \<Rightarrow> load_error + json" where
  "load_endpoints_try OpenFails dflt = Inl OSError"
| "load_endpoints_try ParseFails dflt = Inl JSONDecodeError"
| "load_endpoints_try (Parses (JDict kvs)) dflt =
     (case map_of kvs ''endpoints'' of Some v \<Rightarrow> Inr v | None \<Rightarrow> Inr dflt)"
| "load_endpoints_try (Parses other) dflt = Inl AttributeError"

definition load_endpoints :: "json file_read option \<Rightarrow> json" where
  "load_endpoints endpoints_file =
     (let dflt = JList (map endpoint_dict default_endpoints) in
      case endpoints_file of
        None \<Rightarrow> dflt
      | Some f \<Rightarrow> (case load_endpoints_try f dflt of Inr v \<Rightarrow> v | Inl exc \<Rightarrow> dflt))"

subsection \<open>\_sort\_endpoints\_by\_priority and \_record\_success\<close>

text \<open>Python's truth value of an \<^verbatim>\<open>Optional[str]\<close>: \<^verbatim>\<open>None\<close> and the empty string are false.\<close>

fun truthy :: "string option \<Rightarrow> bool" where
  "truthy None = False"
| "truthy (Some s) = (s \<noteq> [])"

text \<open>The sort key \<^verbatim>\<open>(x.get('priority', 999), x['name'])\<close>.\<close>

definition sort_key_of :: "Endpoint \<Rightarrow> int \<times> string" where
  "sort_key_of x = ((case priority x of None \<Rightarrow> 999 | Some p \<Rightarrow> p), name x)"

text \<open>
  One round of \<^verbatim>\<open>for ep in endpoints\<close>. The loop's state is the list \<^verbatim>\<open>endpoints\<close> and
  the local variable \<^verbatim>\<open>ep\<close>. On a match the body runs \<^verbatim>\<open>ep = ep.copy()\<close> and then
  \<^verbatim>\<open>ep['priority'] = 0\<close>: it rebinds the local variable to a fresh dictionary and writes
  into that one. Nothing is stored into the list.
\<close>

fun override_step ::
  "string \<Rightarrow> Endpoint list \<times> Endpoint option \<Rightarrow> Endpoint \<Rightarrow> Endpoint list \<times> Endpoint option"
where
  "override_step last_name (eps, ep_var) item =
     (if name item = last_name
      then (eps, Some (item\<lparr>priority := Some 0\<rparr>))
      else (eps, Some item))"

definition sort_endpoints_by_priority :: "TidalAPIClient \<Rightarrow> string option \<Rightarrow> Endpoint list" where
  "sort_endpoints_by_priority c operation =
     (let eps = endpoints c;
          eps' =
            (if truthy operation \<and> the operation \<in> dom (success_history c)
             then (let last_success = the (success_history c (the operation))
                   in fst (foldl (override_step (sr_name last_success)) (eps, None) eps))
             else eps)
      in sort_key sort_key_of eps')"

definition record_success :: "TidalAPIClient \<Rightarrow> Endpoint \<Rightarrow> string \<Rightarrow> real \<Rightarrow> TidalAPIClient" where
  "record_success c endpoint operation now =
     c\<lparr>success_history := (success_history c)(operation \<mapsto>
          \<lparr>sr_name = name endpoint, sr_url = url endpoint, sr_timestamp = now\<rparr>)\<rparr>"

subsection \<open>\_make\_request\<close>

text \<open>
  The HTTP session is outside the program. An exception it raises either is an instance
  of \<^verbatim>\<open>requests.exceptions.RequestException\<close> (connection failure, timeout, and in
  current versions of the library also the error of \<^verbatim>\<open>response.json()\<close> on a body that is
  not JSON), which the handler of \<^verbatim>\<open>_make_request\<close> catches, or it is not, and then it
  leaves \<^verbatim>\<open>_make_request\<close>.
\<close>

datatype exn = RequestException | OtherException

text \<open>A response: its status code and what \<^verbatim>\<open>response.json()\<close> does when called.\<close>

record Response =
  status_code :: int
  json_body :: "exn + json"

text \<open>\<^verbatim>\<open>session.get(url, params=params, timeout=10)\<close>, as a function of its arguments.\<close>

type_synonym 'p session = "string \<Rightarrow> 'p \<Rightarrow> exn + Response"

text \<open>
  What a call leaves behind apart from the client: the URLs requested, in order, and the
  seconds spent in \<^verbatim>\<open>time.sleep\<close>.
\<close>

record effects =
  requested :: "string list"
  slept :: nat

text \<open>\<^verbatim>\<open>operation or path\<close>.\<close>

definition operation_or :: "string option \<Rightarrow> string \<Rightarrow> string" where
  "operation_or operation path = (if truthy operation then the operation else path)"

text \<open>
  The loop \<^verbatim>\<open>for endpoint in sorted_endpoints\<close>. \<open>clock n\<close> is the reading of
  \<^verbatim>\<open>time.time()\<close> after the \<open>n\<close>-th request of the call. The result is \<open>Inl\<close> for an
  exception that leaves the function, \<open>Inr None\<close> for \<^verbatim>\<open>return None\<close> and
  \<open>Inr (Some body)\<close> for \<^verbatim>\<open>return response.json()\<close>.
\<close>

fun try_endpoints ::
  "'p session \<Rightarrow> (nat \<Rightarrow> real) \<Rightarrow> string \<Rightarrow> 'p \<Rightarrow> string option \<Rightarrow> Endpoint list \<Rightarrow>
   TidalAPIClient \<times> effects \<Rightarrow> (exn + json option) \<times> TidalAPIClient \<times> effects"
where
  "try_endpoints get clock path params operation [] (c, fx) = (Inr None, c, fx)"
| "try_endpoints get clock path params operation (endpoint # rest) (c, fx) =
     (let u = url endpoint @ path;
          fx1 = fx\<lparr>requested := requested fx @ [u]\<rparr>
      in case get u params of
           Inl RequestException \<Rightarrow> try_endpoints get clock path params operation rest (c, fx1)
         | Inl OtherException \<Rightarrow> (Inl OtherException, c, fx1)
         | Inr response \<Rightarrow>
             if status_code response = 429
             then try_endpoints get clock path params operation rest
                    (c, fx1\<lparr>slept := slept fx1 + 2\<rparr>)
             else if status_code response \<in> {500, 404}
             then try_endpoints get clock path params operation rest (c, fx1)
             else if status_code response = 200
             then (let c1 = record_success c endpoint (operation_or operation path)
                              (clock (length (requested fx1)))
                   in case json_body response of
                        Inr body \<Rightarrow> (Inr (Some body), c1, fx1)
                      | Inl RequestException \<Rightarrow>
                          try_endpoints get clock path params operation rest (c1, fx1)
                      | Inl OtherException \<Rightarrow> (Inl OtherException, c1, fx1))
             else try_endpoints get clock path params operation rest (c, fx1))"

definition make_request ::
  "TidalAPIClient \<Rightarrow> 'p session \<Rightarrow> (nat \<Rightarrow> real) \<Rightarrow> string \<Rightarrow> 'p \<Rightarrow> string option \<Rightarrow>
   (exn + json option) \<times> TidalAPIClient \<times> effects"
where
  "make_request c get clock path params operation =
     (let sorted_endpoints = sort_endpoints_by_priority c operation
      in try_endpoints get clock path params operation sorted_endpoints
           (c, \<lparr>requested = [], slept = 0\<rparr>))"

subsection \<open>The download status cache\<close>

definition get_download_status :: "TidalAPIClient \<Rightarrow> int \<Rightarrow> real \<Rightarrow> doc option" where
  "get_download_status c track_id now =
     (case download_status_cache c track_id of
        Some cached \<Rightarrow> if now - timestamp cached < 300 then Some (status cached) else None
      | None \<Rightarrow> None)"

definition set_download_status :: "TidalAPIClient \<Rightarrow> int \<Rightarrow> doc \<Rightarrow> real \<Rightarrow> TidalAPIClient" where
  "set_download_status c track_id st now =
     c\<lparr>download_status_cache := (download_status_cache c)(track_id \<mapsto>
          \<lparr>status = st, timestamp = now\<rparr>)\<rparr>"

section \<open>download\_state.py\<close>

subsection \<open>Data\<close>

text \<open>
  \<^verbatim>\<open>self.state\<close> is a document with the three mappings \<^verbatim>\<open>active\<close>, \<^verbatim>\<open>completed\<close> and
  \<^verbatim>\<open>failed\<close>, each from \<^verbatim>\<open>str(track_id)\<close> to an entry, itself a dictionary. The manager
  is that document together with what the state file holds. A state file that parses is
  taken to hold a document of this shape, as \<^verbatim>\<open>_save_state\<close> writes it; the values inside
  an entry are arbitrary JSON.
\<close>

record DownloadState =
  active :: "(string \<times> doc) list"
  completed :: "(string \<times> doc) list"
  failed :: "(string \<times> doc) list"

record DownloadStateManager =
  state :: DownloadState
  state_file :: "DownloadState file_read option"

datatype category = Active | Completed | Failed

fun category_of :: "DownloadState \<Rightarrow> category \<Rightarrow> (string \<times> doc) list" where
  "category_of st Active = active st"
| "category_of st Completed = completed st"
| "category_of st Failed = failed st"

fun category_update :: "DownloadState \<Rightarrow> category \<Rightarrow> (string \<times> doc) list \<Rightarrow> DownloadState" where
  "category_update st Active d = st\<lparr>active := d\<rparr>"
| "category_update st Completed d = st\<lparr>completed := d\<rparr>"
| "category_update st Failed d = st\<lparr>failed := d\<rparr>"

text \<open>\<^verbatim>\<open>str(track_id)\<close>: the decimal numeral of an integer.\<close>

fun str_nat :: "nat \<Rightarrow> string" where
  "str_nat n =
     (if n < 10 then [''0123456789'' ! n]
      else str_nat (n div 10) @ [''0123456789'' ! (n mod 10)])"

definition str_int :: "int \<Rightarrow> string" where
  "str_int i = (if i < 0 then CHR ''-'' # str_nat (nat (- i)) else str_nat (nat i))"

text \<open>\<^verbatim>\<open>metadata or {}\<close>: \<^verbatim>\<open>None\<close> and the empty dictionary both give an empty one.\<close>

fun or_empty :: "doc option \<Rightarrow> doc" where
  "or_empty None = []"
| "or_empty (Some d) = d"

text \<open>
  The dictionary display \<^verbatim>\<open>{"status": tag, **entry}\<close>: the keys of \<open>entry\<close> are stored
  one after the other into the dictionary that already holds the tag.
\<close>

definition tagged :: "string \<Rightarrow> doc \<Rightarrow> doc" where
  "tagged tag entry = fold (\<lambda>(k, v). AList.update k v) entry [(''status'', JStr tag)]"

text \<open>
  The value of a JSON number in \<^verbatim>\<open>current_time - x\<close>; \<^verbatim>\<open>bool\<close> is a subclass of \<^verbatim>\<open>int\<close>.
  Any other operand raises \<^verbatim>\<open>TypeError\<close>.
\<close>

datatype py_error = TypeError

fun number_of :: "json \<Rightarrow> py_error + real" where
  "number_of (JInt n) = Inr (of_int n)"
| "number_of (JFloat r) = Inr r"
| "number_of (JBool b) = Inr (if b then 1 else 0)"
| "number_of other = Inl TypeError"

subsection \<open>\_load\_state and \_save\_state\<close>

definition empty_state :: DownloadState where
  "empty_state = \<lparr>active = [], completed = [], failed = []\<rparr>"

definition load_state :: "DownloadState file_read option \<Rightarrow> DownloadState" where
  "load_state f =
     (case f of
        Some (Parses document) \<Rightarrow> document
      | Some OpenFails \<Rightarrow> empty_state
      | Some ParseFails \<Rightarrow> empty_state
      | None \<Rightarrow> empty_state)"

text \<open>
  What the file system does with a write: the document is written; \<^verbatim>\<open>mkdir\<close> or \<^verbatim>\<open>open\<close>
  raises and the file stays as it was; or \<^verbatim>\<open>open(..., 'w')\<close> has truncated the file and
  \<^verbatim>\<open>json.dump\<close> raises. \<^verbatim>\<open>_save_state\<close> catches the exception in both cases.
\<close>

datatype write_outcome = Written | NotOpened | Truncated

fun save_state :: "write_outcome \<Rightarrow> DownloadStateManager \<Rightarrow> DownloadStateManager" where
  "save_state Written m = m\<lparr>state_file := Some (Parses (state m))\<rparr>"
| "save_state NotOpened m = m"
| "save_state Truncated m = m\<lparr>state_file := Some ParseFails\<rparr>"

subsection \<open>\_cleanup\_old\_entries and the constructor\<close>

text \<open>
  \<^verbatim>\<open>data.get("timestamp", 0)\<close>, and the comprehension
  \<^verbatim>\<open>[track_id for track_id, data in items if current_time - data.get("timestamp", 0) > max_age]\<close>
  with \<^verbatim>\<open>max_age = 3600\<close>.
\<close>

definition get_timestamp :: "doc \<Rightarrow> json" where
  "get_timestamp data = (case map_of data ''timestamp'' of None \<Rightarrow> JInt 0 | Some v \<Rightarrow> v)"

fun expired_keys_of :: "real \<Rightarrow> (string \<times> doc) list \<Rightarrow> py_error + string list" where
  "expired_keys_of current_time [] = Inr []"
| "expired_keys_of current_time ((track_id, data) # rest) =
     (case number_of (get_timestamp data) of
        Inl e \<Rightarrow> Inl e
      | Inr ts \<Rightarrow>
         (case expired_keys_of current_time rest of
            Inl e \<Rightarrow> Inl e
          | Inr ks \<Rightarrow> Inr (if current_time - ts > 3600 then track_id # ks else ks)))"

text \<open>
  The loop \<^verbatim>\<open>for category in ["completed", "failed"]\<close>. Its state is the document and the
  variable \<^verbatim>\<open>expired_keys\<close>, which each round assigns anew.
\<close>

fun cleanup_loop ::
  "real \<Rightarrow> category list \<Rightarrow> DownloadState \<times> string list \<Rightarrow> py_error + DownloadState \<times> string list"
where
  "cleanup_loop current_time [] acc = Inr acc"
| "cleanup_loop current_time (cat # cats) (st, expired_keys) =
     (case expired_keys_of current_time (category_of st cat) of
        Inl e \<Rightarrow> Inl e
      | Inr ks \<Rightarrow>
          cleanup_loop current_time cats
            (category_update st cat (fold AList.delete ks (category_of st cat)), ks))"

text \<open>After the loop, \<^verbatim>\<open>if expired_keys: self._save_state()\<close>.\<close>

definition cleanup_old_entries ::
  "real \<Rightarrow> write_outcome \<Rightarrow> DownloadStateManager \<Rightarrow> py_error + DownloadStateManager"
where
  "cleanup_old_entries current_time w m =
     (case cleanup_loop current_time [Completed, Failed] (state m, []) of
        Inl e \<Rightarrow> Inl e
      | Inr (st, expired_keys) \<Rightarrow>
          (let m' = m\<lparr>state := st\<rparr>
           in Inr (if expired_keys \<noteq> [] then save_state w m' else m')))"

definition init :: "DownloadState file_read option \<Rightarrow> real \<Rightarrow> write_outcome \<Rightarrow>
    py_error + DownloadStateManager" where
  "init file current_time w =
     cleanup_old_entries current_time w \<lparr>state = load_state file, state_file = file\<rparr>"

subsection \<open>The operations\<close>

definition get_download_state :: "DownloadStateManager \<Rightarrow> int \<Rightarrow> doc option" where
  "get_download_state m track_id =
     (let track_id_str = str_int track_id in
      case map_of (active (state m)) track_id_str of
        Some entry \<Rightarrow> Some (tagged ''downloading'' entry)
      | None \<Rightarrow>
         (case map_of (completed (state m)) track_id_str of
            Some entry \<Rightarrow> Some (tagged ''completed'' entry)
          | None \<Rightarrow>
             (case map_of (failed (state m)) track_id_str of
                Some entry \<Rightarrow> Some (tagged ''failed'' entry)
              | None \<Rightarrow> None)))"

definition set_downloading ::
  "DownloadStateManager \<Rightarrow> int \<Rightarrow> int \<Rightarrow> doc option \<Rightarrow> real \<Rightarrow> write_outcome \<Rightarrow> DownloadStateManager"
where
  "set_downloading m track_id progress metadata now w =
     (let track_id_str = str_int track_id;
          entry = [(''progress'', JInt progress), (''timestamp'', JFloat now),
                   (''metadata'', JDict (or_empty metadata))]
      in save_state w
           (m\<lparr>state := (state m)\<lparr>active := AList.update track_id_str entry (active (state m))\<rparr>\<rparr>))"

definition update_progress ::
  "DownloadStateManager \<Rightarrow> int \<Rightarrow> int \<Rightarrow> real \<Rightarrow> write_outcome \<Rightarrow> DownloadStateManager"
where
  "update_progress m track_id progress now w =
     (let track_id_str = str_int track_id in
      case map_of (active (state m)) track_id_str of
        None \<Rightarrow> m
      | Some entry \<Rightarrow>
          (let entry' = AList.update ''timestamp'' (JFloat now)
                          (AList.update ''progress'' (JInt progress) entry)
           in save_state w
                (m\<lparr>state := (state m)\<lparr>active :=
                     AList.update track_id_str entry' (active (state m))\<rparr>\<rparr>)))"

definition set_completed ::
  "DownloadStateManager \<Rightarrow> int \<Rightarrow> string \<Rightarrow> doc option \<Rightarrow> real \<Rightarrow> write_outcome \<Rightarrow> DownloadStateManager"
where
  "set_completed m track_id filename metadata now w =
     (let track_id_str = str_int track_id;
          st1 = (if map_of (active (state m)) track_id_str \<noteq> None
                 then (state m)\<lparr>active := AList.delete track_id_str (active (state m))\<rparr>
                 else state m);
          entry = [(''filename'', JStr filename), (''timestamp'', JFloat now),
                   (''metadata'', JDict (or_empty metadata))]
      in save_state w
           (m\<lparr>state := st1\<lparr>completed := AList.update track_id_str entry (completed st1)\<rparr>\<rparr>))"

definition set_failed ::
  "DownloadStateManager \<Rightarrow> int \<Rightarrow> string \<Rightarrow> doc option \<Rightarrow> real \<Rightarrow> write_outcome \<Rightarrow> DownloadStateManager"
where
  "set_failed m track_id error metadata now w =
     (let track_id_str = str_int track_id;
          st1 = (if map_of (active (state m)) track_id_str \<noteq> None
                 then (state m)\<lparr>active := AList.delete track_id_str (active (state m))\<rparr>
                 else state m);
          entry = [(''error'', JStr error), (''timestamp'', JFloat now),
                   (''metadata'', JDict (or_empty metadata))]
      in save_state w
           (m\<lparr>state := st1\<lparr>failed := AList.update track_id_str entry (failed st1)\<rparr>\<rparr>))"

text \<open>The loop \<^verbatim>\<open>for category in ["active", "completed", "failed"]\<close> of \<^verbatim>\<open>clear_download\<close>.\<close>

fun clear_loop :: "string \<Rightarrow> category list \<Rightarrow> DownloadState \<Rightarrow> DownloadState" where
  "clear_loop track_id_str [] st = st"
| "clear_loop track_id_str (cat # cats) st =
     clear_loop track_id_str cats
       (if map_of (category_of st cat) track_id_str \<noteq> None
        then category_update st cat (AList.delete track_id_str (category_of st cat))
        else st)"

definition clear_download :: "DownloadStateManager \<Rightarrow> int \<Rightarrow> write_outcome \<Rightarrow> DownloadStateManager" where
  "clear_download m track_id w =
     (let track_id_str = str_int track_id
      in save_state w (m\<lparr>state := clear_loop track_id_str [Active, Completed, Failed] (state m)\<rparr>))"

section \<open>Predicates and inputs of the properties\<close>

subsection \<open>Outcomes of a request, as the executor tells them apart\<close>

text \<open>
  \<open>passes_over\<close>: the loop goes on to the next endpoint without having seen status 200.
  \<open>yields_failure\<close>: status 429, 500 or 404, or a transport-level error.
  \<open>sleep_after\<close>: the seconds of \<^verbatim>\<open>time.sleep\<close> after an outcome.
\<close>

fun passes_over :: "exn + Response \<Rightarrow> bool" where
  "passes_over (Inl RequestException) = True"
| "passes_over (Inl OtherException) = False"
| "passes_over (Inr r) = (status_code r \<noteq> 200)"

fun yields_failure :: "exn + Response \<Rightarrow> bool" where
  "yields_failure (Inl RequestException) = True"
| "yields_failure (Inl OtherException) = False"
| "yields_failure (Inr r) = (status_code r \<in> {429, 500, 404})"

fun sleep_after :: "exn + Response \<Rightarrow> nat" where
  "sleep_after (Inr r) = (if status_code r = 429 then 2 else 0)"
| "sleep_after (Inl e) = 0"

fun is_dict :: "json \<Rightarrow> bool" where
  "is_dict (JDict kvs) = True"
| "is_dict other = False"

subsection \<open>Sequences of store operations\<close>

datatype store_op =
    SetDownloading int int "doc option"
  | UpdateProgress int int
  | SetCompleted int string "doc option"
  | SetFailed int string "doc option"
  | ClearDownload int

text \<open>A step is an operation with the clock reading and the outcome of its write.\<close>

type_synonym step = "store_op \<times> real \<times> write_outcome"

fun apply_op :: "DownloadStateManager \<Rightarrow> step \<Rightarrow> DownloadStateManager" where
  "apply_op m (SetDownloading i p md, now, w) = set_downloading m i p md now w"
| "apply_op m (UpdateProgress i p, now, w) = update_progress m i p now w"
| "apply_op m (SetCompleted i f md, now, w) = set_completed m i f md now w"
| "apply_op m (SetFailed i e md, now, w) = set_failed m i e md now w"
| "apply_op m (ClearDownload i, now, w) = clear_download m i w"

definition run_ops :: "DownloadStateManager \<Rightarrow> step list \<Rightarrow> DownloadStateManager" where
  "run_ops m steps = foldl apply_op m steps"

definition empty_store :: DownloadStateManager where
  "empty_store = \<lparr>state = empty_state, state_file = None\<rparr>"

definition keys :: "(string \<times> doc) list \<Rightarrow> string set" where
  "keys d = set (map fst d)"

text \<open>No key is in two of the three mappings.\<close>

definition exclusive :: "DownloadState \<Rightarrow> bool" where
  "exclusive st =
     (keys (active st) \<inter> keys (completed st) = {} \<and>
      keys (active st) \<inter> keys (failed st) = {} \<and>
      keys (completed st) \<inter> keys (failed st) = {})"

text \<open>
  An operation follows the life cycle \<open>Absent \<rightarrow> Active \<rightarrow> {Completed, Failed}\<close> when it
  does not enter a state while the item still has a record in another final state:
  \<^verbatim>\<open>set_downloading\<close> on an item that is neither completed nor failed, \<^verbatim>\<open>set_completed\<close>
  on one that is not failed, \<^verbatim>\<open>set_failed\<close> on one that is not completed.
\<close>

fun follows_lifecycle :: "DownloadState \<Rightarrow> store_op \<Rightarrow> bool" where
  "follows_lifecycle st (SetDownloading i p md) =
     (str_int i \<notin> keys (completed st) \<and> str_int i \<notin> keys (failed st))"
| "follows_lifecycle st (UpdateProgress i p) = True"
| "follows_lifecycle st (SetCompleted i f md) = (str_int i \<notin> keys (failed st))"
| "follows_lifecycle st (SetFailed i e md) = (str_int i \<notin> keys (completed st))"
| "follows_lifecycle st (ClearDownload i) = True"

fun lifecycle_run :: "DownloadStateManager \<Rightarrow> step list \<Rightarrow> bool" where
  "lifecycle_run m [] = True"
| "lifecycle_run m (s # ss) =
     (follows_lifecycle (state m) (fst s) \<and> lifecycle_run (apply_op m s) ss)"

text \<open>An entry is expired when its timestamp is a number more than 3600 seconds back.\<close>

definition expired :: "real \<Rightarrow> doc \<Rightarrow> bool" where
  "expired current_time data =
     (case number_of (get_timestamp data) of
        Inl e \<Rightarrow> False
      | Inr ts \<Rightarrow> current_time - ts > 3600)"

subsection \<open>Concrete inputs\<close>

definition kraken :: Endpoint where
  "kraken = \<lparr>name = ''kraken'', url = ''https://kraken.squid.wtf'', priority = Some 1\<rparr>"

definition triton :: Endpoint where
  "triton = \<lparr>name = ''triton'', url = ''https://triton.squid.wtf'', priority = Some 1\<rparr>"

definition zeus :: Endpoint where
  "zeus = \<lparr>name = ''zeus'', url = ''https://zeus.squid.wtf'', priority = Some 1\<rparr>"

definition two_mirrors :: TidalAPIClient where
  "two_mirrors = \<lparr>endpoints = [kraken, triton], success_history = Map.empty,
                   download_status_cache = Map.empty\<rparr>"

definition three_mirrors :: TidalAPIClient where
  "three_mirrors = \<lparr>endpoints = [kraken, triton, zeus], success_history = Map.empty,
                     download_status_cache = Map.empty\<rparr>"

definition tick :: "nat \<Rightarrow> real" where
  "tick n = 1000 + real n"

definition found :: json where
  "found = JDict [(''items'', JList [])]"

text \<open>kraken answers 200 with a body that is not JSON; every other mirror answers 200 with one.\<close>

definition html_page_session :: "unit session" where
  "html_page_session u p =
     (if u = ''https://kraken.squid.wtf/search/''
      then Inr \<lparr>status_code = 200, json_body = Inl RequestException\<rparr>
      else Inr \<lparr>status_code = 200, json_body = Inr found\<rparr>)"

text \<open>kraken is rate limited, every other mirror times out.\<close>

definition all_down_session :: "unit session" where
  "all_down_session u p =
     (if u = ''https://kraken.squid.wtf/search/''
      then Inr \<lparr>status_code = 429, json_body = Inl RequestException\<rparr>
      else Inl RequestException)"

text \<open>kraken answers 503, every other mirror 200.\<close>

definition second_up_session :: "unit session" where
  "second_up_session u p =
     (if u = ''https://kraken.squid.wtf/search/''
      then Inr \<lparr>status_code = 503, json_body = Inl RequestException\<rparr>
      else Inr \<lparr>status_code = 200, json_body = Inr found\<rparr>)"

definition queued :: doc where
  "queued = [(''state'', JStr ''queued'')]"

definition stale_completed :: DownloadState where
  "stale_completed =
     \<lparr>active = [],
      completed = [(''7'', [(''filename'', JStr ''a.flac''), (''timestamp'', JFloat 0),
                            (''metadata'', JDict [])])],
      failed = []\<rparr>"

definition redownload :: "step list" where
  "redownload =
     [(SetDownloading 7 0 None, 1, Written),
      (SetCompleted 7 ''a.flac'' None, 2, Written),
      (SetDownloading 7 0 None, 3, Written)]"

definition two_downloads :: "step list" where
  "two_downloads =
     [(SetDownloading 7 0 None, 1, Written),
      (UpdateProgress 7 50, 2, Written),
      (SetCompleted 7 ''a.flac'' None, 3, Written),
      (SetDownloading 8 0 None, 4, NotOpened),
      (SetFailed 8 ''timeout'' None, 5, Written),
      (ClearDownload 7, 6, Written)]"

section \<open>Properties of tidal\_client.py\<close>

subsection \<open>Endpoint order\<close>

lemma override_fold_fst: "fst (foldl (override_step n) (eps, v) xs) = eps"
  by (induction xs arbitrary: v) simp_all

text \<open>
  The loop over \<^verbatim>\<open>endpoints\<close> leaves the list as it is, so the order depends on the static
  priorities and the names alone, whatever the success history holds.
\<close>

lemma sort_endpoints_static:
  "sort_endpoints_by_priority c operation = sort_key sort_key_of (endpoints c)"
  by (simp add: sort_endpoints_by_priority_def Let_def override_fold_fst)

lemma sort_endpoints_mset: "mset (sort_endpoints_by_priority c operation) = mset (endpoints c)"
  by (simp add: sort_endpoints_static)

lemma sort_endpoints_sorted: "sorted (map sort_key_of (sort_endpoints_by_priority c operation))"
  by (simp add: sort_endpoints_static)

lemma record_success_overwrites:
  "success_history (record_success (record_success c x operation t1) y operation t2) =
   (success_history c)(operation \<mapsto> \<lparr>sr_name = name y, sr_url = url y, sr_timestamp = t2\<rparr>)"
  by (simp add: record_success_def)

lemma two_mirrors_order:
  "sort_endpoints_by_priority two_mirrors operation = [kraken, triton]"
  by (simp add: sort_endpoints_static two_mirrors_def kraken_def triton_def sort_key_of_def)

text \<open>
  Claim C1. \<^verbatim>\<open>_sort_endpoints_by_priority\<close> returns every endpoint once, sorted by
  (priority, name), and the endpoint named by the success record of the operation comes
  first. The first half holds (\<open>sort_endpoints_mset\<close>, \<open>sort_endpoints_sorted\<close>). The second
  does not: with the mirrors kraken and triton, both of priority 1, and a success recorded
  for triton under \<^verbatim>\<open>search_tracks\<close>, the order for \<^verbatim>\<open>search_tracks\<close> is still kraken, triton.
\<close>

theorem sort_endpoints_last_success_not_first:
  "map_option sr_name
     (success_history (record_success two_mirrors triton ''search_tracks'' 100) ''search_tracks'')
     = Some ''triton''
   \<and> map name (sort_endpoints_by_priority
                 (record_success two_mirrors triton ''search_tracks'' 100) (Some ''search_tracks''))
     = [''kraken'', ''triton'']"
  by (simp add: sort_endpoints_by_priority_def record_success_def two_mirrors_def kraken_def
        triton_def sort_key_of_def)

text \<open>
  Claim C4. After \<^verbatim>\<open>record_success(X, op)\<close> and \<^verbatim>\<open>record_success(Y, op)\<close> the history of
  \<^verbatim>\<open>op\<close> holds Y alone (\<open>record_success_overwrites\<close>), and Y is put first by the next
  ordering. The second half fails: with kraken, triton and zeus of priority 1, a success
  of triton and then of zeus under \<^verbatim>\<open>get_track\<close>, the history names zeus and the order for
  \<^verbatim>\<open>get_track\<close> is kraken, triton, zeus.
\<close>

theorem record_success_twice_not_promoted:
  "map_option sr_name
     (success_history
        (record_success (record_success three_mirrors triton ''get_track'' 100) zeus ''get_track'' 200)
        ''get_track'')
     = Some ''zeus''
   \<and> map name (sort_endpoints_by_priority
        (record_success (record_success three_mirrors triton ''get_track'' 100) zeus ''get_track'' 200)
        (Some ''get_track''))
     = [''kraken'', ''triton'', ''zeus'']"
  by (simp add: sort_endpoints_by_priority_def record_success_def three_mirrors_def kraken_def
        triton_def zeus_def sort_key_of_def)

subsection \<open>The executor\<close>

lemma try_endpoints_pass:
  "passes_over (get (url e @ path) params) \<Longrightarrow>
   try_endpoints get clock path params operation (e # rest) (c, fx) =
   try_endpoints get clock path params operation rest
     (c, fx\<lparr>requested := requested fx @ [url e @ path],
             slept := slept fx + sleep_after (get (url e @ path) params)\<rparr>)"
  by (cases "get (url e @ path) params" rule: passes_over.cases) (simp_all add: Let_def)

lemma try_endpoints_prefix:
  "\<forall>e\<in>set pre. passes_over (get (url e @ path) params) \<Longrightarrow>
   try_endpoints get clock path params operation (pre @ rest) (c, fx) =
   try_endpoints get clock path params operation rest
     (c, fx\<lparr>requested := requested fx @ map (\<lambda>e. url e @ path) pre,
             slept := slept fx + sum_list (map (\<lambda>e. sleep_after (get (url e @ path) params)) pre)\<rparr>)"
proof (induction pre arbitrary: fx)
  case Nil
  then show ?case by simp
next
  case (Cons a pre)
  then show ?case by (simp add: try_endpoints_pass add.assoc del: try_endpoints.simps)
qed

lemma try_endpoints_hit:
  "get (url e @ path) params = Inr r \<Longrightarrow> status_code r = 200 \<Longrightarrow> json_body r = Inr b \<Longrightarrow>
   try_endpoints get clock path params operation (e # rest) (c, fx) =
     (Inr (Some b),
      record_success c e (operation_or operation path) (clock (Suc (length (requested fx)))),
      fx\<lparr>requested := requested fx @ [url e @ path]\<rparr>)"
  by (simp add: Let_def)

lemma yields_failure_passes: "yields_failure x \<Longrightarrow> passes_over x"
  by (cases x rule: yields_failure.cases) auto

lemma try_endpoints_some:
  "fst (try_endpoints get clock path params operation es (c, fx)) = Inr (Some b) \<Longrightarrow>
   \<exists>e\<in>set es. \<exists>r. get (url e @ path) params = Inr r \<and> status_code r = 200 \<and> json_body r = Inr b"
proof (induction es arbitrary: c fx)
  case Nil
  then show ?case by simp
next
  case (Cons a es)
  then show ?case
    by (fastforce simp: Let_def split: sum.splits exn.splits if_splits)
qed

text \<open>
  Claim C5, as stated: whenever some endpoint yields status 200, the executor returns the
  parsed body of the first such endpoint in selector order and requests nothing after it.
  This fails when the body of that response is not JSON: \<^verbatim>\<open>response.json()\<close> raises inside
  the \<^verbatim>\<open>try\<close>, the handler continues, and the loop goes on. Here kraken, first in order,
  answers 200 with such a body; the executor records a success for kraken, requests triton
  as well and returns triton's body.
\<close>

theorem make_request_first_200_counterexample:
  "html_page_session (url kraken @ ''/search/'') ()
     = Inr \<lparr>status_code = 200, json_body = Inl RequestException\<rparr>
   \<and> sort_endpoints_by_priority two_mirrors (Some ''search_tracks'') = [kraken, triton]
   \<and> make_request two_mirrors html_page_session tick ''/search/'' () (Some ''search_tracks'')
     = (Inr (Some found),
        record_success (record_success two_mirrors kraken ''search_tracks'' 1001)
          triton ''search_tracks'' 1002,
        \<lparr>requested = [''https://kraken.squid.wtf/search/'', ''https://triton.squid.wtf/search/''],
         slept = 0\<rparr>)"
  by (simp add: make_request_def two_mirrors_order html_page_session_def)
     (simp add: kraken_def triton_def tick_def operation_or_def Let_def)

text \<open>
  Claim C5, amended: if the first endpoint in selector order that yields status 200 has a
  body that parses, and every endpoint before it yields another status or raises a
  \<^verbatim>\<open>RequestException\<close>, then the executor records the success of that endpoint under
  \<^verbatim>\<open>operation or path\<close>, returns its parsed body, and has requested the endpoints up to it
  and none after it.
\<close>

theorem make_request_first_parsed_200:
  assumes "sort_endpoints_by_priority c operation = pre @ e # post"
    and "\<forall>x\<in>set pre. passes_over (get (url x @ path) params)"
    and "get (url e @ path) params = Inr r"
    and "status_code r = 200"
    and "json_body r = Inr body"
  shows "make_request c get clock path params operation =
           (Inr (Some body),
            record_success c e (operation_or operation path) (clock (Suc (length pre))),
            \<lparr>requested = map (\<lambda>x. url x @ path) (pre @ [e]),
             slept = sum_list (map (\<lambda>x. sleep_after (get (url x @ path) params)) pre)\<rparr>)"
  using assms
  by (simp add: make_request_def try_endpoints_prefix try_endpoints_hit del: try_endpoints.simps)

theorem make_request_first_parsed_200_witness:
  "sort_endpoints_by_priority two_mirrors (Some ''search_tracks'') = [kraken] @ triton # []
   \<and> passes_over (second_up_session (url kraken @ ''/search/'') ())
   \<and> second_up_session (url triton @ ''/search/'') ()
       = Inr \<lparr>status_code = 200, json_body = Inr found\<rparr>
   \<and> make_request two_mirrors second_up_session tick ''/search/'' () (Some ''search_tracks'') =
       (Inr (Some found),
        record_success two_mirrors triton ''search_tracks'' 1002,
        \<lparr>requested = [''https://kraken.squid.wtf/search/'', ''https://triton.squid.wtf/search/''],
         slept = 0\<rparr>)"
proof -
  have h1: "sort_endpoints_by_priority two_mirrors (Some ''search_tracks'') = [kraken] @ triton # []"
    by (simp add: two_mirrors_order)
  have h2: "\<forall>x\<in>set [kraken]. passes_over (second_up_session (url x @ ''/search/'') ())"
    by (simp add: second_up_session_def kraken_def)
  have h3: "second_up_session (url triton @ ''/search/'') ()
              = Inr \<lparr>status_code = 200, json_body = Inr found\<rparr>"
    by (simp add: second_up_session_def triton_def)
  have "make_request two_mirrors second_up_session tick ''/search/'' () (Some ''search_tracks'') =
       (Inr (Some found),
        record_success two_mirrors triton ''search_tracks'' 1002,
        \<lparr>requested = [''https://kraken.squid.wtf/search/'', ''https://triton.squid.wtf/search/''],
         slept = 0\<rparr>)"
    using make_request_first_parsed_200
            [where c = two_mirrors and operation = "Some ''search_tracks''" and pre = "[kraken]"
               and e = triton and post = "[]" and get = second_up_session
               and path = "''/search/''" and params = "()" and body = found and clock = tick,
             OF h1 h2 h3]
    by (simp add: operation_or_def tick_def second_up_session_def kraken_def triton_def)
  moreover have "passes_over (second_up_session (url kraken @ ''/search/'') ())"
    using h2 by simp
  ultimately show ?thesis using h1 h3 by blast
qed

text \<open>
  Claim C6. If every endpoint yields a failure (status 429, 500 or 404, or a
  \<^verbatim>\<open>RequestException\<close> such as a connection error or a timeout), the executor returns
  \<^verbatim>\<open>None\<close> and raises nothing, the client is unchanged, and the requests made are one per
  endpoint, in selector order.
\<close>

theorem make_request_all_fail:
  assumes "\<forall>e\<in>set (endpoints c). yields_failure (get (url e @ path) params)"
  shows "fst (make_request c get clock path params operation) = Inr None
       \<and> fst (snd (make_request c get clock path params operation)) = c
       \<and> requested (snd (snd (make_request c get clock path params operation)))
           = map (\<lambda>e. url e @ path) (sort_endpoints_by_priority c operation)
       \<and> mset (sort_endpoints_by_priority c operation) = mset (endpoints c)"
proof -
  have "\<forall>e\<in>set (sort_endpoints_by_priority c operation). passes_over (get (url e @ path) params)"
    using assms by (simp add: sort_endpoints_static yields_failure_passes)
  from try_endpoints_prefix
         [where pre = "sort_endpoints_by_priority c operation" and get = get and path = path
            and params = params and rest = "[]", OF this]
  show ?thesis by (simp add: make_request_def sort_endpoints_mset)
qed

theorem make_request_all_fail_witness:
  "endpoints two_mirrors = [kraken, triton]
   \<and> yields_failure (all_down_session (url kraken @ ''/search/'') ())
   \<and> yields_failure (all_down_session (url triton @ ''/search/'') ())
   \<and> fst (make_request two_mirrors all_down_session tick ''/search/'' () (Some ''search_tracks''))
       = Inr None
   \<and> requested (snd (snd (make_request two_mirrors all_down_session tick ''/search/'' ()
        (Some ''search_tracks''))))
       = [''https://kraken.squid.wtf/search/'', ''https://triton.squid.wtf/search/'']"
proof -
  have h: "\<forall>e\<in>set (endpoints two_mirrors).
             yields_failure (all_down_session (url e @ ''/search/'') ())"
    by (simp add: two_mirrors_def kraken_def triton_def all_down_session_def)
  from make_request_all_fail
         [where c = two_mirrors and get = all_down_session and path = "''/search/''"
            and params = "()" and clock = tick and operation = "Some ''search_tracks''", OF h] h
  show ?thesis
    by (simp add: two_mirrors_order) (simp add: two_mirrors_def kraken_def triton_def)
qed

text \<open>
  Claim C10. The executor returns a parsed body only if some endpoint yields status 200
  with that body; and on a response with any other status code (403, 502 and 503 among
  them) the loop goes on with the remaining endpoints, having returned nothing: the
  request is logged, the client is unchanged, and only status 429 adds a sleep.
\<close>

theorem make_request_only_200_returns:
  "(fst (make_request c get clock path params operation) = Inr (Some body) \<longrightarrow>
      (\<exists>e\<in>set (endpoints c). \<exists>r. get (url e @ path) params = Inr r
          \<and> status_code r = 200 \<and> json_body r = Inr body))
   \<and> (get (url e @ path) params = Inr r \<and> status_code r \<noteq> 200 \<longrightarrow>
        try_endpoints get clock path params operation (e # rest) (c, fx) =
        try_endpoints get clock path params operation rest
          (c, fx\<lparr>requested := requested fx @ [url e @ path],
                  slept := slept fx + (if status_code r = 429 then 2 else 0)\<rparr>))"
proof -
  have "\<exists>e\<in>set (endpoints c). \<exists>r. get (url e @ path) params = Inr r
          \<and> status_code r = 200 \<and> json_body r = Inr body"
    if "fst (make_request c get clock path params operation) = Inr (Some body)"
  proof -
    from that have "fst (try_endpoints get clock path params operation
        (sort_endpoints_by_priority c operation) (c, \<lparr>requested = [], slept = 0\<rparr>)) = Inr (Some body)"
      by (simp add: make_request_def)
    from try_endpoints_some [OF this] show ?thesis
      by (simp add: sort_endpoints_static)
  qed
  moreover have "try_endpoints get clock path params operation (e # rest) (c, fx) =
        try_endpoints get clock path params operation rest
          (c, fx\<lparr>requested := requested fx @ [url e @ path],
                  slept := slept fx + (if status_code r = 429 then 2 else 0)\<rparr>)"
    if "get (url e @ path) params = Inr r" "status_code r \<noteq> 200"
    using try_endpoints_pass [of get e path params clock operation rest c fx] that by simp
  ultimately show ?thesis by blast
qed

theorem make_request_only_200_returns_witness:
  "fst (make_request two_mirrors second_up_session tick ''/search/'' () (Some ''search_tracks''))
     = Inr (Some found)
   \<and> second_up_session (url triton @ ''/search/'') ()
       = Inr \<lparr>status_code = 200, json_body = Inr found\<rparr>
   \<and> second_up_session (url kraken @ ''/search/'') ()
       = Inr \<lparr>status_code = 503, json_body = Inl RequestException\<rparr>
   \<and> try_endpoints second_up_session tick ''/search/'' () (Some ''search_tracks'')
        (kraken # [triton]) (two_mirrors, \<lparr>requested = [], slept = 0\<rparr>) =
     try_endpoints second_up_session tick ''/search/'' () (Some ''search_tracks'')
        [triton] (two_mirrors, \<lparr>requested = [''https://kraken.squid.wtf/search/''], slept = 0\<rparr>)"
proof -
  note T = make_request_only_200_returns
      [where c = two_mirrors and get = second_up_session and clock = tick
         and path = "''/search/''" and params = "()" and operation = "Some ''search_tracks''"
         and body = found and e = kraken
         and r = "\<lparr>status_code = 503, json_body = Inl RequestException\<rparr>"
         and rest = "[triton]" and fx = "\<lparr>requested = [], slept = 0\<rparr>"]
  have h1: "fst (make_request two_mirrors second_up_session tick ''/search/'' ()
                  (Some ''search_tracks'')) = Inr (Some found)"
    by (simp add: make_request_def two_mirrors_order second_up_session_def)
       (simp add: kraken_def triton_def Let_def)
  have h2: "second_up_session (url kraken @ ''/search/'') ()
              = Inr \<lparr>status_code = 503, json_body = Inl RequestException\<rparr>"
    by (simp add: second_up_session_def kraken_def)
  from T h1 have "\<exists>e\<in>set (endpoints two_mirrors). \<exists>r.
      second_up_session (url e @ ''/search/'') () = Inr r \<and> status_code r = 200
      \<and> json_body r = Inr found"
    by blast
  then have c1: "second_up_session (url triton @ ''/search/'') ()
      = Inr \<lparr>status_code = 200, json_body = Inr found\<rparr>"
    by (simp add: two_mirrors_def kraken_def triton_def second_up_session_def)
  from T h2 have c2: "try_endpoints second_up_session tick ''/search/'' () (Some ''search_tracks'')
        (kraken # [triton]) (two_mirrors, \<lparr>requested = [], slept = 0\<rparr>) =
     try_endpoints second_up_session tick ''/search/'' () (Some ''search_tracks'')
        [triton] (two_mirrors, \<lparr>requested = [''https://kraken.squid.wtf/search/''], slept = 0\<rparr>)"
    by (simp add: kraken_def del: try_endpoints.simps)
  from h1 c1 h2 c2 show ?thesis by blast
qed

subsection \<open>Loading the endpoints\<close>

text \<open>
  Claim C7, as stated: every malformed configuration falls back to the built-in list.
  A file that is valid JSON with an \<^verbatim>\<open>endpoints\<close> key whose value is not a list of
  endpoints is returned as it is: for \<^verbatim>\<open>{"endpoints": null}\<close> the loader returns \<^verbatim>\<open>None\<close>.
\<close>

theorem load_endpoints_malformed_counterexample:
  "load_endpoints (Some (Parses (JDict [(''endpoints'', JNull)]))) = JNull
   \<and> JNull \<noteq> JList (map endpoint_dict default_endpoints)"
  by (simp add: load_endpoints_def)

text \<open>
  Claim C7, amended: the loader returns the value stored under \<^verbatim>\<open>endpoints\<close> whenever the
  file exists and parses to a JSON object that has this key (the configured list, when
  the file is well formed). When the file is absent, cannot be opened, is not JSON, is
  JSON but not an object, or is an object without the key, it returns the built-in list
  and raises nothing. The built-in list has 12 mirrors with distinct names, in the
  priority tiers 1 and 2.
\<close>

theorem load_endpoints_fallback:
  "load_endpoints None = JList (map endpoint_dict default_endpoints)
   \<and> load_endpoints (Some OpenFails) = JList (map endpoint_dict default_endpoints)
   \<and> load_endpoints (Some ParseFails) = JList (map endpoint_dict default_endpoints)
   \<and> (\<not> is_dict d \<longrightarrow>
        load_endpoints (Some (Parses d)) = JList (map endpoint_dict default_endpoints))
   \<and> (map_of kvs ''endpoints'' = None \<longrightarrow>
        load_endpoints (Some (Parses (JDict kvs))) = JList (map endpoint_dict default_endpoints))
   \<and> (map_of kvs' ''endpoints'' = Some v \<longrightarrow> load_endpoints (Some (Parses (JDict kvs'))) = v)
   \<and> length default_endpoints = 12
   \<and> distinct (map name default_endpoints)
   \<and> set (map priority default_endpoints) = {Some 1, Some 2}"
proof -
  have "load_endpoints (Some (Parses d)) = JList (map endpoint_dict default_endpoints)"
    if "\<not> is_dict d"
    using that by (cases d) (simp_all add: load_endpoints_def)
  moreover have "length default_endpoints = 12"
    by (simp add: default_endpoints_def)
  moreover have "distinct (map name default_endpoints)"
    by (simp add: default_endpoints_def)
  moreover have "set (map priority default_endpoints) = {Some 1, Some 2}"
    by (simp add: default_endpoints_def insert_commute)
  ultimately show ?thesis
    by (simp add: load_endpoints_def)
qed

theorem load_endpoints_fallback_witness:
  "\<not> is_dict (JList [])
   \<and> load_endpoints (Some (Parses (JList []))) = JList (map endpoint_dict default_endpoints)
   \<and> map_of [(''mirrors'', JList [])] ''endpoints'' = None
   \<and> load_endpoints (Some (Parses (JDict [(''mirrors'', JList [])])))
       = JList (map endpoint_dict default_endpoints)
   \<and> map_of [(''endpoints'', JList [endpoint_dict kraken])] ''endpoints''
       = Some (JList [endpoint_dict kraken])
   \<and> load_endpoints (Some (Parses (JDict [(''endpoints'', JList [endpoint_dict kraken])])))
       = JList [endpoint_dict kraken]"
  using load_endpoints_fallback
          [where d = "JList []" and kvs = "[(''mirrors'', JList [])]"
             and kvs' = "[(''endpoints'', JList [endpoint_dict kraken])]"
             and v = "JList [endpoint_dict kraken]"]
  by simp

subsection \<open>The status cache\<close>

text \<open>
  Claim C8. After \<^verbatim>\<open>set_download_status(i, s)\<close>, a \<^verbatim>\<open>get_download_status(i)\<close> made before
  300 seconds have passed (an immediate one in particular) returns \<open>s\<close>; and for an entry
  older than 300 seconds \<^verbatim>\<open>get_download_status\<close> returns \<^verbatim>\<open>None\<close>.
\<close>

theorem status_cache_put_get_ttl:
  "(later - now < 300 \<longrightarrow>
      get_download_status (set_download_status c i s now) i later = Some s)
   \<and> (download_status_cache c' j = Some cached \<and> t - timestamp cached > 300 \<longrightarrow>
        get_download_status c' j t = None)"
  by (simp add: get_download_status_def set_download_status_def)

theorem status_cache_put_get_ttl_witness:
  "(1000::real) - 1000 < 300
   \<and> get_download_status (set_download_status two_mirrors 1 queued 1000) 1 1000 = Some queued
   \<and> download_status_cache (set_download_status two_mirrors 1 queued 1000) 1
       = Some \<lparr>status = queued, timestamp = 1000\<rparr>
   \<and> (1301::real) - timestamp \<lparr>status = queued, timestamp = 1000\<rparr> > 300
   \<and> get_download_status (set_download_status two_mirrors 1 queued 1000) 1 1301 = None"
proof -
  have h: "download_status_cache (set_download_status two_mirrors 1 queued 1000) 1
             = Some \<lparr>status = queued, timestamp = 1000\<rparr>"
    by (simp add: set_download_status_def)
  from status_cache_put_get_ttl
         [where now = 1000 and later = 1000 and c = two_mirrors and i = 1 and s = queued
            and c' = "set_download_status two_mirrors 1 queued 1000" and j = 1
            and cached = "\<lparr>status = queued, timestamp = 1000\<rparr>" and t = 1301] h
  show ?thesis by simp
qed

section \<open>Properties of download\_state.py\<close>

lemma state_save_state: "state (save_state w m) = state m"
  by (cases w) simp_all

lemma keys_update: "keys (AList.update k v d) = insert k (keys d)"
  by (simp add: keys_def dom_update)

lemma keys_delete: "keys (AList.delete k d) = keys d - {k}"
  by (simp add: keys_def delete_keys)

lemma map_of_keys: "map_of d k = None \<longleftrightarrow> k \<notin> keys d"
  by (simp add: keys_def map_of_eq_None_iff)

lemma map_of_Some_keys: "map_of d k = Some v \<Longrightarrow> k \<in> keys d"
  using map_of_keys [of d k] by simp

lemmas store_simps = state_save_state keys_update keys_delete map_of_keys

subsection \<open>One state per item\<close>

lemma exclusive_apply_op:
  assumes ex: "exclusive (state m)" and ok: "follows_lifecycle (state m) (fst s)"
  shows "exclusive (state (apply_op m s))"
proof (cases s)
  case (fields o1 now w)
  show ?thesis
  proof (cases o1)
    case (SetDownloading i p md)
    with fields ex ok show ?thesis
      by (auto simp: exclusive_def set_downloading_def Let_def store_simps)
  next
    case (UpdateProgress i p)
    with fields ex ok show ?thesis
      by (auto simp: exclusive_def update_progress_def Let_def state_save_state keys_update
            split: option.splits dest: map_of_Some_keys)
  next
    case (SetCompleted i f md)
    with fields ex ok show ?thesis
      by (auto simp: exclusive_def set_completed_def Let_def store_simps)
  next
    case (SetFailed i e md)
    with fields ex ok show ?thesis
      by (auto simp: exclusive_def set_failed_def Let_def store_simps)
  next
    case (ClearDownload i)
    with fields ex ok show ?thesis
      by (auto simp: exclusive_def clear_download_def Let_def store_simps)
  qed
qed

lemma exclusive_run:
  "exclusive (state m) \<Longrightarrow> lifecycle_run m steps \<Longrightarrow> exclusive (state (foldl apply_op m steps))"
  by (induction steps arbitrary: m) (simp_all add: exclusive_apply_op)

text \<open>
  Claim C2, as stated: after any sequence of store operations from the empty store, no
  item is in two of the mappings. \<^verbatim>\<open>set_downloading\<close> writes the active entry and leaves a
  completed or failed one where it is (and \<^verbatim>\<open>set_completed\<close>, \<^verbatim>\<open>set_failed\<close> remove the
  active entry only). Downloading item 7, completing it and downloading it again leaves 7
  both active and completed.
\<close>

theorem store_item_in_two_states_counterexample:
  "map_of (active (state (run_ops empty_store redownload))) ''7'' \<noteq> None
   \<and> map_of (completed (state (run_ops empty_store redownload))) ''7'' \<noteq> None"
  by (simp add: run_ops_def redownload_def empty_store_def empty_state_def set_downloading_def
        set_completed_def str_int_def Let_def)

text \<open>
  Claim C2, amended: after any sequence of store operations from the empty store in which
  \<^verbatim>\<open>set_downloading\<close> is applied only to an item that is neither completed nor failed,
  \<^verbatim>\<open>set_completed\<close> only to one that is not failed and \<^verbatim>\<open>set_failed\<close> only to one that is
  not completed, every item is in at most one of the mappings active, completed, failed.
\<close>

theorem store_exclusive_on_lifecycle:
  "lifecycle_run empty_store steps \<Longrightarrow> exclusive (state (run_ops empty_store steps))"
  unfolding run_ops_def
  by (rule exclusive_run) (simp_all add: exclusive_def empty_store_def empty_state_def keys_def)

theorem store_exclusive_on_lifecycle_witness:
  "lifecycle_run empty_store two_downloads
   \<and> exclusive (state (run_ops empty_store two_downloads))"
proof -
  have h: "lifecycle_run empty_store two_downloads"
    by (simp add: two_downloads_def empty_store_def empty_state_def set_downloading_def
          update_progress_def set_completed_def set_failed_def keys_def str_int_def Let_def)
  from store_exclusive_on_lifecycle [OF h] h show ?thesis by simp
qed

subsection \<open>The sweep of the constructor\<close>

lemma delete_filter: "AList.delete k d = filter (\<lambda>p. fst p \<noteq> k) d"
  by (induction d) auto

lemma fold_delete_filter: "fold AList.delete ks d = filter (\<lambda>p. fst p \<notin> set ks) d"
proof (induction ks arbitrary: d)
  case Nil
  then show ?case by simp
next
  case (Cons k ks)
  then show ?case by (simp add: delete_filter conj_commute)
qed

lemma expired_keys_of_mem:
  "expired_keys_of now d = Inr ks \<Longrightarrow> k \<in> set ks \<longleftrightarrow> (\<exists>e. (k, e) \<in> set d \<and> expired now e)"
proof (induction d arbitrary: ks)
  case Nil
  then show ?case by simp
next
  case (Cons p d)
  obtain k' e' where p: "p = (k', e')" by (cases p)
  from Cons.prems p obtain ts ks' where
    ts: "number_of (get_timestamp e') = Inr ts" and
    ks': "expired_keys_of now d = Inr ks'" and
    ks: "ks = (if now - ts > 3600 then k' # ks' else ks')"
    by (simp split: sum.splits)
  have ex: "expired now e' \<longleftrightarrow> now - ts > 3600"
    by (simp add: expired_def ts)
  from Cons.IH [OF ks'] have ih: "k \<in> set ks' \<longleftrightarrow> (\<exists>e. (k, e) \<in> set d \<and> expired now e)" .
  show ?case
  proof (cases "now - ts > 3600")
    case True
    with ks ih ex p show ?thesis by auto
  next
    case False
    with ks ih ex p show ?thesis by auto
  qed
qed

lemma sweep_category:
  assumes "expired_keys_of now d = Inr ks" and "distinct (map fst d)"
  shows "fold AList.delete ks d = filter (\<lambda>p. \<not> expired now (snd p)) d"
proof -
  have "fst p \<notin> set ks \<longleftrightarrow> \<not> expired now (snd p)" if "p \<in> set d" for p
  proof -
    obtain k e where p: "p = (k, e)" by (cases p)
    have uniq: "e' = e" if "(k, e') \<in> set d" for e'
      using that \<open>p \<in> set d\<close> p assms(2) eq_key_imp_eq_value by fastforce
    have "k \<in> set ks \<longleftrightarrow> expired now e"
      using expired_keys_of_mem [OF assms(1), of k] uniq \<open>p \<in> set d\<close> p by blast
    with p show ?thesis by simp
  qed
  then show ?thesis
    unfolding fold_delete_filter by (intro filter_cong refl)
qed

lemma cleanup_loop_two:
  "cleanup_loop now [Completed, Failed] (st, ks0) =
     (case expired_keys_of now (completed st) of
        Inl e \<Rightarrow> Inl e
      | Inr kc \<Rightarrow>
         (case expired_keys_of now (failed st) of
            Inl e \<Rightarrow> Inl e
          | Inr kf \<Rightarrow>
              Inr (st\<lparr>completed := fold AList.delete kc (completed st),
                      failed := fold AList.delete kf (failed st)\<rparr>, kf)))"
  by (simp split: sum.splits)

text \<open>
  What the sweep keeps: when the constructor returns, and the keys of each mapping are
  distinct as in a parsed JSON object, the completed and failed mappings hold the entries
  that are not expired, and the active mapping is as loaded.
\<close>

lemma init_sweeps:
  assumes "init file now w = Inr m"
    and "distinct (map fst (completed (load_state file)))"
    and "distinct (map fst (failed (load_state file)))"
  shows "completed (state m) = filter (\<lambda>p. \<not> expired now (snd p)) (completed (load_state file))
       \<and> failed (state m) = filter (\<lambda>p. \<not> expired now (snd p)) (failed (load_state file))
       \<and> active (state m) = active (load_state file)"
proof -
  let ?st = "load_state file"
  from assms(1) obtain kc kf where
    kc: "expired_keys_of now (completed ?st) = Inr kc" and
    kf: "expired_keys_of now (failed ?st) = Inr kf" and
    st: "state m = ?st\<lparr>completed := fold AList.delete kc (completed ?st),
                       failed := fold AList.delete kf (failed ?st)\<rparr>"
    unfolding init_def cleanup_old_entries_def
    by (auto simp: cleanup_loop_two Let_def state_save_state split: sum.splits if_splits)
  from sweep_category [OF kc assms(2)] sweep_category [OF kf assms(3)] st
  show ?thesis by simp
qed

text \<open>
  Claim C3. On construction the expired completed and failed entries are removed, the
  others are kept (\<open>init_sweeps\<close>), and the pruned document is written back if anything
  was removed. The last part fails: after the loop \<^verbatim>\<open>expired_keys\<close> is the list of the
  failed mapping alone. With a state file whose only entry is a completed one of timestamp
  0, construction at time 7200 with a working file system removes the entry from memory
  and leaves the file as it was.
\<close>

theorem init_completed_sweep_not_saved:
  "init (Some (Parses stale_completed)) 7200 Written =
     Inr \<lparr>state = empty_state, state_file = Some (Parses stale_completed)\<rparr>
   \<and> stale_completed \<noteq> empty_state"
  by (simp add: init_def cleanup_old_entries_def load_state_def stale_completed_def
        empty_state_def get_timestamp_def)

subsection \<open>Completing a download\<close>

text \<open>
  Claim C9. After \<^verbatim>\<open>set_downloading(i)\<close> and then \<^verbatim>\<open>set_completed(i, f)\<close> (for example
  \<open>i = 7\<close>, \<open>f = "a.flac"\<close>), from any store and whatever the writes do, item \<open>i\<close> is not in
  the active mapping, the completed mapping holds it with filename \<open>f\<close>, and
  \<^verbatim>\<open>get_download_state(i)\<close> returns that entry with the status \<^verbatim>\<open>completed\<close>.
\<close>

theorem set_completed_after_downloading:
  "map_of (active (state (set_completed (set_downloading m i p md t1 w1) i f md2 t2 w2))) (str_int i)
     = None
   \<and> map_of (completed (state (set_completed (set_downloading m i p md t1 w1) i f md2 t2 w2)))
       (str_int i)
     = Some [(''filename'', JStr f), (''timestamp'', JFloat t2), (''metadata'', JDict (or_empty md2))]
   \<and> get_download_state (set_completed (set_downloading m i p md t1 w1) i f md2 t2 w2) i
     = Some [(''status'', JStr ''completed''), (''filename'', JStr f), (''timestamp'', JFloat t2),
             (''metadata'', JDict (or_empty md2))]"
  by (simp add: set_completed_def set_downloading_def get_download_state_def Let_def
        state_save_state update_conv' delete_conv' tagged_def)

end
